theory Spec2Isabelle
  imports Main "HOL-Library.Word"
begin

section \<open>Errors and the effect discipline of the router operations\<close>

text \<open>
  The operations \<open>newAuction\<close> (packages/router/src/lib/operations/auction.ts) and
  \<open>cancel\<close> (operations/cancel.ts) are asynchronous TypeScript functions that read a
  process-wide context, call collaborators, mutate process state and leave either by
  \<open>return\<close> or by \<open>throw\<close>. The embedding makes this explicit: an operation is
  a function from the state before to a result and the state after, and the result is a
  sum whose left side is the error thrown.

  The error classes the two operations construct themselves are the constructors below.
  Anything thrown by a collaborator (an RPC failure, a \<open>TypeError\<close> on an undefined
  object, a throw inside a helper that is not part of these two files) is \<open>Thrown\<close>
  with a description.
\<close>

datatype error =
    ParamsInvalid
  | ZeroValueBid
  | AuctionRateExceeded
  | AuctionExpired
  | ProvidersNotAvailable
  | SubgraphNotSynced
  | NotEnoughAmount
  | NotEnoughLiquidity
  | NotEnoughGas
  | ReceiverTxExists
  | SenderTxTooNew
  | Thrown string

type_synonym ('s, 'a) op = "'s \<Rightarrow> (error + 'a) \<times> 's"

definition returnE :: "'a \<Rightarrow> ('s, 'a) op" where
  "returnE x = (\<lambda>s. (Inr x, s))"

definition throwE :: "error \<Rightarrow> ('s, 'a) op" where
  "throwE e = (\<lambda>s. (Inl e, s))"

definition bindE :: "('s, 'a) op \<Rightarrow> ('a \<Rightarrow> ('s, 'b) op) \<Rightarrow> ('s, 'b) op" where
  "bindE m f = (\<lambda>s. case m s of (Inl e, s') \<Rightarrow> (Inl e, s') | (Inr x, s') \<Rightarrow> f x s')"

text \<open>\<open>await\<close> of a collaborator's promise: a rejection propagates as \<open>Thrown\<close>.\<close>

definition awaitE :: "string + 'a \<Rightarrow> ('s, 'a) op" where
  "awaitE r = (case r of Inl msg \<Rightarrow> throwE (Thrown msg) | Inr v \<Rightarrow> returnE v)"

text \<open>\<open>if (c) throw new E(...)\<close>.\<close>

definition throwIf :: "bool \<Rightarrow> error \<Rightarrow> ('s, unit) op" where
  "throwIf c e = (if c then throwE e else returnE ())"

text \<open>Reading an object that may be \<open>undefined\<close>: a property access on it is a TypeError.\<close>

definition definedE :: "'a option \<Rightarrow> ('s, 'a) op" where
  "definedE v = (case v of None \<Rightarrow> throwE (Thrown ''TypeError'') | Some x \<Rightarrow> returnE x)"

text \<open>\<open>Promise.all(xs.map(async (x) => ...))\<close>, the reads taken in list order.\<close>

fun mapE :: "('a \<Rightarrow> ('s, 'b) op) \<Rightarrow> 'a list \<Rightarrow> ('s, 'b list) op" where
  "mapE f [] = returnE []"
| "mapE f (x # xs) = bindE (f x) (\<lambda>y. bindE (mapE f xs) (\<lambda>ys. returnE (y # ys)))"

section \<open>ethers' BigNumber.from on strings\<close>

text \<open>
  \<open>BigNumber.from(value: string)\<close> of ethers v5 accepts a string matching
  \<open>/^-?0x[0-9a-f]+$/i\<close> or \<open>/^-?[0-9]+$/\<close> and throws \<open>invalid BigNumber string\<close> on
  anything else. A BigNumber is an unbounded signed integer. The hexadecimal digits may be
  of either case, but the prefix must be the lower-case \<open>0x\<close>: a string with the prefix
  \<open>0X\<close> passes the first pattern, is then stored as \<open>0x0X...\<close>, and the first operation
  on the BigNumber (\<open>isZero\<close>, \<open>lt\<close>) throws. \<open>None\<close> stands for both throws:
  \<open>newAuction\<close> tests the amount with \<open>isZero\<close> inside the same \<open>try\<close> block (lines
  79-82), and compares the quote of line 228 with \<open>lt\<close> at line 241, after the gas fee
  has been read, where a throw is an error of no class of its own either way.
\<close>

definition dec_digit :: "char \<Rightarrow> nat option" where
  "dec_digit c =
     (let n = (of_char c :: nat) in if 48 \<le> n \<and> n \<le> 57 then Some (n - 48) else None)"

definition hex_digit :: "char \<Rightarrow> nat option" where
  "hex_digit c =
     (let n = (of_char c :: nat) in
      if 48 \<le> n \<and> n \<le> 57 then Some (n - 48)
      else if 97 \<le> n \<and> n \<le> 102 then Some (n - 87)
      else if 65 \<le> n \<and> n \<le> 70 then Some (n - 55)
      else None)"

fun digits_value :: "nat \<Rightarrow> (char \<Rightarrow> nat option) \<Rightarrow> nat \<Rightarrow> string \<Rightarrow> nat option" where
  "digits_value base dig acc [] = Some acc"
| "digits_value base dig acc (c # cs) =
     (case dig c of None \<Rightarrow> None | Some d \<Rightarrow> digits_value base dig (base * acc + d) cs)"

definition unsigned_from :: "string \<Rightarrow> nat option" where
  "unsigned_from s =
     (case s of
        [] \<Rightarrow> None
      | c # cs \<Rightarrow>
          (if c = CHR ''0'' \<and> cs \<noteq> [] \<and> hd cs = CHR ''x''
           then (if tl cs = [] then None else digits_value 16 hex_digit 0 (tl cs))
           else digits_value 10 dec_digit 0 s))"

definition BigNumber_from :: "string \<Rightarrow> int option" where
  "BigNumber_from s =
     (case s of
        [] \<Rightarrow> None
      | c # cs \<Rightarrow>
          (if c = CHR ''-'' then map_option (\<lambda>n. - int n) (unsigned_from cs)
           else map_option int (unsigned_from s)))"

section \<open>Number to string, as a template literal does for a chain id\<close>

definition digit_char :: "nat \<Rightarrow> char" where
  "digit_char d = ''0123456789'' ! d"

function string_of_nat :: "nat \<Rightarrow> string" where
  "string_of_nat n =
     (if n < 10 then [digit_char n] else string_of_nat (n div 10) @ [digit_char (n mod 10)])"
  by pat_completeness auto
termination
  by (relation "measure (\<lambda>n. n)") auto

declare string_of_nat.simps [simp del]

section \<open>Data of the auction path\<close>

text \<open>
  \<open>AuctionPayload\<close> as \<open>newAuction\<close> destructures it (auction.ts, lines 58-73). JavaScript
  numbers (chain ids, seconds, milliseconds) are integers here; amounts are decimal strings
  that the code turns into BigNumbers.
\<close>

record AuctionPayload =
  user :: string
  initiator :: string
  sendingChainId :: nat
  sendingAssetId :: string
  amount :: string
  receivingChainId :: nat
  receivingAssetId :: string
  receivingAddress :: string
  expiry :: int
  transactionId :: string
  encryptedCallData :: string
  callDataHash :: string
  callTo :: string
  dryRun :: bool

text \<open>
  The bid object of lines 295-314. \<open>bid_amountReceived\<close> is the integer whose decimal
  string (\<open>BigNumber.toString()\<close>) the code stores.
\<close>

record AuctionBid =
  bid_user :: string
  bid_router :: string
  bid_initiator :: string
  bid_sendingChainId :: nat
  bid_sendingAssetId :: string
  bid_amount :: string
  bid_receivingChainId :: nat
  bid_receivingAssetId :: string
  bid_amountReceived :: int
  bid_receivingAddress :: string
  bid_transactionId :: string
  bid_expiry :: int
  bid_callDataHash :: string
  bid_callTo :: string
  bid_encryptedCallData :: string
  bid_sendingChainTxManagerAddress :: string
  bid_receivingChainTxManagerAddress :: string
  bid_bidExpiry :: int

record AuctionResponse =
  bid :: AuctionBid
  bidSignature :: "string option"
  gasFeeInReceivingToken :: int

text \<open>The label set of one \<open>receivedAuction.inc\<close> call (lines 35-40).\<close>

record AuctionLabels =
  label_sendingAssetId :: string
  label_receivingAssetId :: string
  label_sendingChainId :: nat
  label_receivingChainId :: nat

record ChainConfig =
  providers :: "string list option"
  minGas :: int
  transactionManagerAddress :: string
  weight :: int
  routerContractRelayerAsset :: "string option"

record SyncRecord =
  synced :: bool
  latestBlock :: nat
  syncedBlock :: nat
  uri :: string

record PoolAsset =
  asset_chainId :: nat
  asset_assetId :: string

record SwapPool =
  pool_name :: string
  assets :: "PoolAsset list"

section \<open>Data of the cancel path\<close>

datatype TransactionStatus = Prepared | Fulfilled | Cancelled

record InvariantTransactionData =
  tx_receivingChainTxManagerAddress :: string
  tx_user :: string
  tx_router :: string
  tx_initiator :: string
  tx_sendingAssetId :: string
  tx_receivingAssetId :: string
  tx_sendingChainFallback :: string
  tx_callTo :: string
  tx_receivingAddress :: string
  tx_sendingChainId :: nat
  tx_receivingChainId :: nat
  tx_callDataHash :: string
  tx_transactionId :: string

text \<open>
  \<open>CancelInput\<close>: \<open>side\<close> and \<open>preparedTransactionHash\<close> are taken out by the
  destructuring of line 58, the rest is the variant transaction data.
\<close>

record CancelInput =
  side :: string
  preparedTransactionHash :: string
  variant_amount :: string
  variant_expiry :: int
  variant_preparedBlockNumber :: nat

text \<open>
  What \<open>getTransactionForChain\<close> resolves to when a record exists: the fields the sender
  branch reads, \<open>existing.status\<close> and \<open>existing.txData.expiry\<close>.
\<close>

record ExistingTransaction =
  status :: TransactionStatus
  txData_expiry :: int

record TransactionReceipt =
  transactionHash :: string
  blockNumber :: nat

record Block =
  timestamp :: int

text \<open>The arguments of one \<open>contractWriter.cancel\<close> call (lines 126-135).\<close>

record CancelCall =
  call_chainId :: nat
  call_invariant :: InvariantTransactionData
  call_amount :: string
  call_expiry :: int
  call_preparedBlockNumber :: nat
  call_signature :: string
  call_relayerFeeAsset :: string
  call_relayerFee :: int

section \<open>Process state and collaborators\<close>

text \<open>
  The state the two operations change: the \<open>receivedAuction\<close> counter (one count per label
  set), the rate limiter's \<open>AUCTION_REQUEST_MAP\<close> (key to last attempt, in milliseconds)
  and the calls handed to the chain writer, oldest first.
\<close>

record router_state =
  receivedAuction :: "AuctionLabels \<Rightarrow> nat"
  AUCTION_REQUEST_MAP :: "string \<rightharpoonup> int"
  cancel_calls :: "CancelCall list"

text \<open>
  Everything the operations obtain from \<open>getContext()\<close>, from the helper modules and from
  \<open>@connext/nxtp-utils\<close>, none of which is part of the two files: configuration values,
  constants, and the answer of each collaborator for each argument. A rejected promise or
  a throwing helper answers \<open>Inl\<close> with a message. Within one invocation a collaborator
  gives the same answer to the same question. The two schema validators are the compiled
  \<open>ajv\<close> validators. \<open>getSwapIdxList\<close> answers \<open>None\<close> when the pair of assets is in
  no swap pool; by check 7 of the spec's section 4.D it then throws \<open>ParamsInvalid\<close>.
\<close>

record world =
  validateInput :: "AuctionPayload \<Rightarrow> bool"
  getNtpTimeSeconds :: "string + int"
  wallet_getAddress :: "string + string"
  requestLimit :: int
  AUCTION_EXPIRY_BUFFER :: int
  getDecimalsForAsset :: "nat \<Rightarrow> string \<Rightarrow> string + nat"
  chainConfig :: "nat \<rightharpoonup> ChainConfig"
  getSyncRecords :: "nat \<Rightarrow> string + SyncRecord list"
  getSwapIdxList :: "nat \<Rightarrow> string \<Rightarrow> nat \<Rightarrow> string \<Rightarrow> (nat \<times> nat \<times> nat) option"
  swapPools :: "SwapPool list"
  getAssetBalance :: "string \<Rightarrow> nat \<Rightarrow> string + int"
  maxPriceImpact :: string
  amplification :: string
  allowedVAMM :: bool
  getReceiverAmount ::
    "string \<Rightarrow> nat \<Rightarrow> nat \<Rightarrow> int list \<Rightarrow> nat \<Rightarrow> nat \<Rightarrow> string \<Rightarrow> string \<Rightarrow> bool \<Rightarrow> string + string"
  calculateGasFeeInReceivingToken ::
    "string \<Rightarrow> nat \<Rightarrow> string \<Rightarrow> nat \<Rightarrow> nat \<Rightarrow> string + int"
  getBalance :: "nat \<Rightarrow> string \<Rightarrow> string + int"
  getBidExpiry :: "int \<Rightarrow> int"
  signAuctionBid :: "AuctionBid \<Rightarrow> string + string"
  validateInvariantData :: "InvariantTransactionData \<Rightarrow> bool"
  validateCancelInput :: "CancelInput \<Rightarrow> bool"
  getTransactionForChain :: "string \<Rightarrow> string \<Rightarrow> nat \<Rightarrow> string + ExistingTransaction option"
  getTransactionReceipt :: "nat \<Rightarrow> string \<Rightarrow> string + TransactionReceipt option"
  getBlock :: "nat \<Rightarrow> nat \<Rightarrow> string + Block option"
  isRouterContract :: bool
  utils_getAddress :: "string \<Rightarrow> string + string"
  txService_getDecimalsForAsset :: "nat \<Rightarrow> string \<Rightarrow> string + nat"
  calculateGasFee :: "nat \<Rightarrow> string \<Rightarrow> nat \<Rightarrow> string \<Rightarrow> string \<Rightarrow> string + int"
  contractWriter_cancel :: "CancelCall \<Rightarrow> string + TransactionReceipt"

section \<open>newAuction\<close>

text \<open>\<open>receivedAuction.inc(labels)\<close>: the count of that label set goes up by one.\<close>

definition receivedAuction_inc :: "AuctionLabels \<Rightarrow> (router_state, unit) op" where
  "receivedAuction_inc labels =
     (\<lambda>s. (Inr (), s\<lparr>receivedAuction := (receivedAuction s)(labels := receivedAuction s labels + 1)\<rparr>))"

text \<open>
  The rate limiter's key, the template literal of lines 102 and 321:
  \<open>`${user}-${sendingAssetId}-${sendingChainId}-${receivingAssetId}-${receivingChainId}`\<close>.
\<close>

definition auction_key :: "AuctionPayload \<Rightarrow> string" where
  "auction_key data =
     user data @ ''-'' @ sendingAssetId data @ ''-'' @ string_of_nat (sendingChainId data) @ ''-'' @
     receivingAssetId data @ ''-'' @ string_of_nat (receivingChainId data)"

definition AUCTION_REQUEST_MAP_get :: "string \<Rightarrow> (router_state, int option) op" where
  "AUCTION_REQUEST_MAP_get k = (\<lambda>s. (Inr (AUCTION_REQUEST_MAP s k), s))"

definition AUCTION_REQUEST_MAP_set :: "string \<Rightarrow> int \<Rightarrow> (router_state, unit) op" where
  "AUCTION_REQUEST_MAP_set k v =
     (\<lambda>s. (Inr (), s\<lparr>AUCTION_REQUEST_MAP := (AUCTION_REQUEST_MAP s)(k \<mapsto> v)\<rparr>))"

text \<open>
  Line 104: \<open>lastAttemptTime && lastAttemptTime + config.requestLimit > currentTime * 1000\<close>.
  A missing entry is \<open>undefined\<close>, and an entry of \<open>0\<close> is falsy as well.
\<close>

definition rate_exceeded :: "int option \<Rightarrow> int \<Rightarrow> int \<Rightarrow> bool" where
  "rate_exceeded lastAttemptTime limit currentTime =
     (case lastAttemptTime of
        None \<Rightarrow> False
      | Some t \<Rightarrow> t \<noteq> 0 \<and> t + limit > currentTime * 1000)"

text \<open>
  Lines 136-139: \<open>!cfg?.providers || cfg.providers.length === 0\<close> for one chain's
  configuration, which may be undefined.
\<close>

definition no_providers :: "ChainConfig option \<Rightarrow> bool" where
  "no_providers cfg =
     (case cfg of
        None \<Rightarrow> True
      | Some c \<Rightarrow> (case providers c of None \<Rightarrow> True | Some ps \<Rightarrow> length ps = 0))"

text \<open>
  Lines 181-188, the body mapped over the pool's assets: the asset's liquidity brought to
  18 decimals and multiplied by the chain's weight. \<open>BigNumber.pow\<close> throws on a negative
  exponent.
\<close>

definition routerBalanceInEther :: "world \<Rightarrow> PoolAsset \<Rightarrow> (router_state, int) op" where
  "routerBalanceInEther w asset =
     bindE (awaitE (getAssetBalance w (asset_assetId asset) (asset_chainId asset))) (\<lambda>assetLiquidity.
     bindE (awaitE (getDecimalsForAsset w (asset_chainId asset) (asset_assetId asset))) (\<lambda>assetDecimals.
     bindE (definedE (chainConfig w (asset_chainId asset))) (\<lambda>cfg.
     bindE (throwIf (18 < assetDecimals) (Thrown ''BigNumber.pow: negative exponent'')) (\<lambda>_.
     returnE (assetLiquidity * 10 ^ (18 - assetDecimals) * weight cfg)))))"

text \<open>
  \<open>newAuction\<close>, statement by statement; the line numbers are those of auction.ts. Logging
  is left out. \<open>Promise.all\<close> of two reads takes them in the order written.
\<close>

definition newAuction :: "world \<Rightarrow> AuctionPayload \<Rightarrow> (router_state, AuctionResponse) op" where
  "newAuction w data =
     \<comment> \<open>35-40\<close>
     bindE (receivedAuction_inc
              \<lparr>label_sendingAssetId = sendingAssetId data,
               label_receivingAssetId = receivingAssetId data,
               label_sendingChainId = receivingChainId data,
               label_receivingChainId = receivingChainId data\<rparr>) (\<lambda>_.
     \<comment> \<open>46-56\<close>
     bindE (throwIf (\<not> validateInput w data) ParamsInvalid) (\<lambda>_.
     \<comment> \<open>77-95: any throw inside the try block, the one of BigNumber.from included, becomes ZeroValueBid\<close>
     bindE (throwIf (case BigNumber_from (amount data) of None \<Rightarrow> True | Some amountBigNumber \<Rightarrow> amountBigNumber = 0)
              ZeroValueBid) (\<lambda>_.
     \<comment> \<open>97-98\<close>
     bindE (awaitE (getNtpTimeSeconds w)) (\<lambda>currentTime.
     bindE (awaitE (wallet_getAddress w)) (\<lambda>routerAddress.
     \<comment> \<open>101-112\<close>
     bindE (AUCTION_REQUEST_MAP_get (auction_key data)) (\<lambda>lastAttemptTime.
     bindE (throwIf (rate_exceeded lastAttemptTime (requestLimit w) currentTime) AuctionRateExceeded) (\<lambda>_.
     \<comment> \<open>115-123\<close>
     bindE (throwIf (expiry data \<le> currentTime + AUCTION_EXPIRY_BUFFER w) AuctionExpired) (\<lambda>_.
     \<comment> \<open>128-129\<close>
     bindE (awaitE (getDecimalsForAsset w (sendingChainId data) (sendingAssetId data))) (\<lambda>inputDecimals.
     bindE (awaitE (getDecimalsForAsset w (receivingChainId data) (receivingAssetId data))) (\<lambda>outputDecimals.
     \<comment> \<open>133-147\<close>
     bindE (throwIf (no_providers (chainConfig w (sendingChainId data)) \<or>
                     no_providers (chainConfig w (receivingChainId data))) ProvidersNotAvailable) (\<lambda>_.
     bindE (definedE (chainConfig w (sendingChainId data))) (\<lambda>sendingConfig.
     bindE (definedE (chainConfig w (receivingChainId data))) (\<lambda>receivingConfig.
     \<comment> \<open>150-157\<close>
     bindE (awaitE (getSyncRecords w (receivingChainId data))) (\<lambda>receivingSyncRecords.
     bindE (throwIf (\<not> list_ex synced receivingSyncRecords) SubgraphNotSynced) (\<lambda>_.
     \<comment> \<open>159-166\<close>
     bindE (awaitE (getSyncRecords w (sendingChainId data))) (\<lambda>sendingSyncRecords.
     bindE (throwIf (\<not> list_ex synced sendingSyncRecords) SubgraphNotSynced) (\<lambda>_.
     \<comment> \<open>168-175\<close>
     bindE (case getSwapIdxList w (sendingChainId data) (sendingAssetId data)
                  (receivingChainId data) (receivingAssetId data) of
              None \<Rightarrow> throwE ParamsInvalid
            | Some idx \<Rightarrow> returnE idx) (\<lambda>(sendingChainIdx, receivingChainIdx, swapPoolIdx).
     \<comment> \<open>177-189\<close>
     bindE (definedE (if swapPoolIdx < length (swapPools w) then Some (swapPools w ! swapPoolIdx) else None))
       (\<lambda>swapPool.
     bindE (mapE (routerBalanceInEther w) (assets swapPool)) (\<lambda>routerBalancesInEther.
     \<comment> \<open>197-200\<close>
     bindE (awaitE (getAssetBalance w (sendingAssetId data) (sendingChainId data))) (\<lambda>senderLiquidity.
     bindE (awaitE (getAssetBalance w (receivingAssetId data) (receivingChainId data))) (\<lambda>receiverLiquidity.
     \<comment> \<open>207-219\<close>
     bindE (awaitE (getReceiverAmount w (amount data) inputDecimals outputDecimals routerBalancesInEther
                      sendingChainIdx receivingChainIdx (maxPriceImpact w) (amplification w) (allowedVAMM w)))
       (\<lambda>amountReceived.
     \<comment> \<open>228\<close>
     bindE (case BigNumber_from amountReceived of
              None \<Rightarrow> throwE (Thrown ''invalid BigNumber string'')
            | Some n \<Rightarrow> returnE n) (\<lambda>amountReceivedInBigNum.
     \<comment> \<open>229-236\<close>
     bindE (awaitE (calculateGasFeeInReceivingToken w (sendingAssetId data) (sendingChainId data)
                      (receivingAssetId data) (receivingChainId data) outputDecimals))
       (\<lambda>gasFeeInReceivingToken.
     \<comment> \<open>241-249\<close>
     bindE (throwIf (amountReceivedInBigNum < gasFeeInReceivingToken) NotEnoughAmount) (\<lambda>_.
     \<comment> \<open>251\<close>
     bindE (returnE (amountReceivedInBigNum - gasFeeInReceivingToken)) (\<lambda>amountReceived.
     \<comment> \<open>253-263\<close>
     bindE (throwIf (receiverLiquidity < amountReceived) NotEnoughLiquidity) (\<lambda>_.
     \<comment> \<open>265-268\<close>
     bindE (awaitE (getBalance w (sendingChainId data) routerAddress)) (\<lambda>senderBalance.
     bindE (awaitE (getBalance w (receivingChainId data) routerAddress)) (\<lambda>receiverBalance.
     \<comment> \<open>285-290\<close>
     bindE (throwIf (senderBalance < minGas sendingConfig \<or> receiverBalance < minGas receivingConfig)
              NotEnoughGas) (\<lambda>_.
     \<comment> \<open>294-314\<close>
     bindE (returnE
              \<lparr>bid_user = user data,
               bid_router = routerAddress,
               bid_initiator = initiator data,
               bid_sendingChainId = sendingChainId data,
               bid_sendingAssetId = sendingAssetId data,
               bid_amount = amount data,
               bid_receivingChainId = receivingChainId data,
               bid_receivingAssetId = receivingAssetId data,
               bid_amountReceived = amountReceived,
               bid_receivingAddress = receivingAddress data,
               bid_transactionId = transactionId data,
               bid_expiry = expiry data,
               bid_callDataHash = callDataHash data,
               bid_callTo = callTo data,
               bid_encryptedCallData = encryptedCallData data,
               bid_sendingChainTxManagerAddress = transactionManagerAddress sendingConfig,
               bid_receivingChainTxManagerAddress = transactionManagerAddress receivingConfig,
               bid_bidExpiry = getBidExpiry w currentTime\<rparr>) (\<lambda>bid.
     \<comment> \<open>317\<close>
     bindE (awaitE (signAuctionBid w bid)) (\<lambda>bidSignature.
     \<comment> \<open>320-323\<close>
     bindE (AUCTION_REQUEST_MAP_set (auction_key data) (currentTime * 1000)) (\<lambda>_.
     \<comment> \<open>324-328\<close>
     returnE
       \<lparr>bid = bid,
        bidSignature = (if dryRun data then None else Some bidSignature),
        gasFeeInReceivingToken = gasFeeInReceivingToken\<rparr>
     ))))))))))))))))))))))))))))))))))"


section \<open>cancel\<close>

text \<open>Line 18 of cancel.ts: \<open>SENDER_PREPARE_BUFFER_TIME = 60 * 13\<close>, in seconds.\<close>

definition SENDER_PREPARE_BUFFER_TIME :: int where
  "SENDER_PREPARE_BUFFER_TIME = 60 * 13"

text \<open>\<open>constants.AddressZero\<close> of ethers.\<close>

definition AddressZero :: string where
  "AddressZero = ''0x0000000000000000000000000000000000000000''"

text \<open>
  Handing a cancel to the chain writer (line 126): the call is recorded whether the writer
  then resolves with a receipt or rejects.
\<close>

definition dispatch_cancel :: "world \<Rightarrow> CancelCall \<Rightarrow> (router_state, TransactionReceipt) op" where
  "dispatch_cancel w call =
     (\<lambda>s. (case contractWriter_cancel w call of Inl msg \<Rightarrow> Inl (Thrown msg) | Inr r \<Rightarrow> Inr r,
            s\<lparr>cancel_calls := cancel_calls s @ [call]\<rparr>))"

text \<open>
  Line 72: \<open>existing && existing.status !== TransactionStatus.Cancelled &&
  currentTime < existing?.txData.expiry\<close>.
\<close>

definition receiver_tx_exists :: "ExistingTransaction option \<Rightarrow> int \<Rightarrow> bool" where
  "receiver_tx_exists existing currentTime =
     (case existing of
        None \<Rightarrow> False
      | Some ex \<Rightarrow> status ex \<noteq> Cancelled \<and> currentTime < txData_expiry ex)"

text \<open>
  Line 86: \<open>!preparedBlock || currentTime < preparedBlock.timestamp + SENDER_PREPARE_BUFFER_TIME\<close>.
\<close>

definition sender_tx_too_new :: "Block option \<Rightarrow> int \<Rightarrow> bool" where
  "sender_tx_too_new preparedBlock currentTime =
     (case preparedBlock of
        None \<Rightarrow> True
      | Some b \<Rightarrow> currentTime < timestamp b + SENDER_PREPARE_BUFFER_TIME)"

text \<open>
  The sender branch, lines 65-99. It yields the chain to cancel on; the relayer fee asset
  and fee keep their initial values of lines 60-61.
\<close>

definition cancel_sender ::
  "world \<Rightarrow> InvariantTransactionData \<Rightarrow> CancelInput \<Rightarrow> (router_state, nat \<times> string \<times> int) op" where
  "cancel_sender w invariantData input =
     bindE (awaitE (getTransactionForChain w (tx_transactionId invariantData) (tx_user invariantData)
                      (tx_receivingChainId invariantData))) (\<lambda>existing.
     bindE (awaitE (getNtpTimeSeconds w)) (\<lambda>currentTime.
     bindE (throwIf (receiver_tx_exists existing currentTime) ReceiverTxExists) (\<lambda>_.
     bindE (awaitE (getTransactionReceipt w (tx_sendingChainId invariantData)
                      (preparedTransactionHash input))) (\<lambda>receipt.
     bindE (definedE receipt) (\<lambda>receipt.
     bindE (awaitE (getBlock w (tx_sendingChainId invariantData) (blockNumber receipt))) (\<lambda>preparedBlock.
     bindE (throwIf (sender_tx_too_new preparedBlock currentTime) SenderTxTooNew) (\<lambda>_.
     returnE (tx_sendingChainId invariantData, AddressZero, 0))))))))"

text \<open>
  The other branch, lines 101-120. \<open>x || AddressZero\<close> takes \<open>AddressZero\<close> for an
  undefined or empty \<open>x\<close>.
\<close>

definition cancel_receiver ::
  "world \<Rightarrow> InvariantTransactionData \<Rightarrow> (router_state, nat \<times> string \<times> int) op" where
  "cancel_receiver w invariantData =
     (if isRouterContract w then
        bindE (definedE (chainConfig w (tx_receivingChainId invariantData))) (\<lambda>cfg.
        bindE (awaitE (utils_getAddress w
                 (case routerContractRelayerAsset cfg of
                    None \<Rightarrow> AddressZero
                  | Some a \<Rightarrow> if a = [] then AddressZero else a))) (\<lambda>routerRelayerFeeAsset.
        bindE (awaitE (txService_getDecimalsForAsset w (tx_receivingChainId invariantData)
                         (tx_receivingAssetId invariantData))) (\<lambda>relayerFeeAssetDecimal.
        bindE (awaitE (calculateGasFee w (tx_receivingChainId invariantData) routerRelayerFeeAsset
                         relayerFeeAssetDecimal ''cancel'' ''receiving'')) (\<lambda>routerRelayerFee.
        returnE (tx_receivingChainId invariantData, routerRelayerFeeAsset, routerRelayerFee)))))
      else returnE (tx_receivingChainId invariantData, AddressZero, 0))"

text \<open>\<open>cancel\<close>, lines 22-138 of cancel.ts.\<close>

definition cancel ::
  "world \<Rightarrow> InvariantTransactionData \<Rightarrow> CancelInput \<Rightarrow> (router_state, TransactionReceipt) op" where
  "cancel w invariantData input =
     \<comment> \<open>33-43\<close>
     bindE (throwIf (\<not> validateInvariantData w invariantData) ParamsInvalid) (\<lambda>_.
     \<comment> \<open>46-56\<close>
     bindE (throwIf (\<not> validateCancelInput w input) ParamsInvalid) (\<lambda>_.
     \<comment> \<open>58-121\<close>
     bindE (if side input = ''sender'' then cancel_sender w invariantData input
            else cancel_receiver w invariantData)
       (\<lambda>(cancelChain, routerRelayerFeeAsset, routerRelayerFee).
     \<comment> \<open>126-137\<close>
     dispatch_cancel w
       \<lparr>call_chainId = cancelChain,
        call_invariant = invariantData,
        call_amount = variant_amount input,
        call_expiry = variant_expiry input,
        call_preparedBlockNumber = variant_preparedBlockNumber input,
        call_signature = ''0x'',
        call_relayerFeeAsset = routerRelayerFeeAsset,
        call_relayerFee = routerRelayerFee\<rparr>)))"

section \<open>The gas fee of the price and gas oracle\<close>

text \<open>
  Modelled from the spec: \<open>calculateGasFee\<close> of the transaction service's chain reader
  (the spec's \<open>gas_fee\<close>, section 4.A) is not among the source files; only its test
  (\<open>describe("#calculateGasFee")\<close>) is. The spec: \<open>gas_fee\<close> "returns
  gasPrice * gasEstimate(action) * ethPrice / tokenPrice, scaled to decimals. Returns 0 if
  the chain lacks an oracle"; "gasEstimate is a static table keyed by action"; "All
  arithmetic uses 256-bit unsigned integers; division is floor". The test fixes the oracle
  chains by \<open>CHAINS_WITH_PRICE_ORACLES\<close>, takes the first token price read as the price of
  the native asset and the second as the price of the fee asset, and at 18 decimals expects
  the quotient as it is.

  Numbers are 256-bit words, whose arithmetic wraps. Prices carry 18 decimals, so the
  quotient is an amount with 18 decimals; scaling it to \<open>decimals\<close> is the floor division
  by \<open>10 ^ (18 - decimals)\<close> for an asset with at most 18 decimals and the multiplication
  by \<open>10 ^ (decimals - 18)\<close> for one with more. The spec gives no value to a division by
  a token price of zero; the fee is then \<open>0\<close>.
\<close>

datatype gas_action = ActPrepare | ActFulfill | ActCancel

record oracle_world =
  CHAINS_WITH_PRICE_ORACLES :: "nat list"
  GAS_ESTIMATES :: "gas_action \<Rightarrow> 256 word"
  getTokenPrice :: "nat \<Rightarrow> string \<Rightarrow> 256 word"
  getGasPrice :: "nat \<Rightarrow> 256 word"

definition scale_to_decimals :: "nat \<Rightarrow> 256 word \<Rightarrow> 256 word" where
  "scale_to_decimals decimals amount18 =
     (if decimals \<le> 18 then amount18 div 10 ^ (18 - decimals)
      else amount18 * 10 ^ (decimals - 18))"

definition gas_fee :: "oracle_world \<Rightarrow> nat \<Rightarrow> string \<Rightarrow> nat \<Rightarrow> gas_action \<Rightarrow> 256 word" where
  "gas_fee ow chainId assetId decimals action =
     (if chainId \<notin> set (CHAINS_WITH_PRICE_ORACLES ow) then 0
      else
        let ethPrice = getTokenPrice ow chainId AddressZero;
            tokenPrice = getTokenPrice ow chainId assetId;
            gasPrice = getGasPrice ow chainId
        in if tokenPrice = 0 then 0
           else scale_to_decimals decimals (gasPrice * GAS_ESTIMATES ow action * ethPrice div tokenPrice))"

section \<open>Reasoning about operations\<close>

text \<open>An operation that leaves the state as it found it, whatever it answers.\<close>

definition pure_op :: "('s, 'a) op \<Rightarrow> bool" where
  "pure_op m = (\<forall>s. snd (m s) = s)"

section \<open>Concrete scenarios\<close>

text \<open>
  The happy path of the spec's scenario S1: a request for 1000000 units from chain 1337 to
  chain 1338, both chains configured and synced, an AMM quote of 999000 and a gas fee of
  1000 in the receiving token.
\<close>

definition s1_payload :: AuctionPayload where
  "s1_payload =
     \<lparr>user = ''0xa11ce'', initiator = ''0xa11ce'', sendingChainId = 1337,
      sendingAssetId = ''0xa55e71'', amount = ''1000000'', receivingChainId = 1338,
      receivingAssetId = ''0xa55e72'', receivingAddress = ''0xb0b'', expiry = 1700100000,
      transactionId = ''0x01'', encryptedCallData = ''0x'', callDataHash = ''0x00'',
      callTo = AddressZero, dryRun = False\<rparr>"

definition s1_chain :: ChainConfig where
  "s1_chain =
     \<lparr>providers = Some [''http://localhost:8545''], minGas = 100,
      transactionManagerAddress = ''0x7a'', weight = 1, routerContractRelayerAsset = None\<rparr>"

definition s1_receipt :: TransactionReceipt where
  "s1_receipt = \<lparr>transactionHash = ''0xca'', blockNumber = 11\<rparr>"

definition s1_world :: world where
  "s1_world =
     \<lparr>validateInput = (\<lambda>_. True),
      getNtpTimeSeconds = Inr 1700000000,
      wallet_getAddress = Inr ''0x4073'',
      requestLimit = 5000,
      AUCTION_EXPIRY_BUFFER = 300,
      getDecimalsForAsset = (\<lambda>_ _. Inr 18),
      chainConfig = [1337 \<mapsto> s1_chain, 1338 \<mapsto> s1_chain],
      getSyncRecords =
        (\<lambda>_. Inr [\<lparr>synced = True, latestBlock = 100, syncedBlock = 100, uri = ''http://subgraph''\<rparr>]),
      getSwapIdxList = (\<lambda>_ _ _ _. Some (0, 1, 0)),
      swapPools =
        [\<lparr>pool_name = ''TEST'',
          assets = [\<lparr>asset_chainId = 1337, asset_assetId = ''0xa55e71''\<rparr>,
                    \<lparr>asset_chainId = 1338, asset_assetId = ''0xa55e72''\<rparr>]\<rparr>],
      getAssetBalance = (\<lambda>_ _. Inr 5000000),
      maxPriceImpact = ''0.1'',
      amplification = ''85'',
      allowedVAMM = True,
      getReceiverAmount = (\<lambda>_ _ _ _ _ _ _ _ _. Inr ''999000''),
      calculateGasFeeInReceivingToken = (\<lambda>_ _ _ _ _. Inr 1000),
      getBalance = (\<lambda>_ _. Inr 1000000000000000000),
      getBidExpiry = (\<lambda>t. t + 300),
      signAuctionBid = (\<lambda>_. Inr ''0x51''),
      validateInvariantData = (\<lambda>_. True),
      validateCancelInput = (\<lambda>_. True),
      getTransactionForChain = (\<lambda>_ _ _. Inr None),
      getTransactionReceipt = (\<lambda>_ _. Inr (Some \<lparr>transactionHash = ''0x9e'', blockNumber = 10\<rparr>)),
      getBlock = (\<lambda>_ _. Inr (Some \<lparr>timestamp = 1699990000\<rparr>)),
      isRouterContract = False,
      utils_getAddress = (\<lambda>a. Inr a),
      txService_getDecimalsForAsset = (\<lambda>_ _. Inr 18),
      calculateGasFee = (\<lambda>_ _ _ _ _. Inr 0),
      contractWriter_cancel = (\<lambda>_. Inr s1_receipt)\<rparr>"

definition idle_state :: router_state where
  "idle_state = \<lparr>receivedAuction = (\<lambda>_. 0), AUCTION_REQUEST_MAP = Map.empty, cancel_calls = []\<rparr>"

text \<open>The transaction of the cancel scenarios, and a request to cancel its sender side.\<close>

definition s5_invariant :: InvariantTransactionData where
  "s5_invariant =
     \<lparr>tx_receivingChainTxManagerAddress = ''0x7a'', tx_user = ''0xa11ce'', tx_router = ''0x4073'',
      tx_initiator = ''0xa11ce'', tx_sendingAssetId = ''0xa55e71'', tx_receivingAssetId = ''0xa55e72'',
      tx_sendingChainFallback = ''0xa11ce'', tx_callTo = AddressZero, tx_receivingAddress = ''0xb0b'',
      tx_sendingChainId = 1337, tx_receivingChainId = 1338, tx_callDataHash = ''0x00'',
      tx_transactionId = ''0x01''\<rparr>"

definition s5_input :: CancelInput where
  "s5_input =
     \<lparr>side = ''sender'', preparedTransactionHash = ''0x9e'', variant_amount = ''1000000'',
      variant_expiry = 1700100000, variant_preparedBlockNumber = 10\<rparr>"

text \<open>
  The oracle of the chain reader's test: chain 1 has a price oracle, the native asset costs
  31 and the fee asset 7 (18 decimals), the gas price is 5 gwei; the gas estimates are those
  of scenario S1.
\<close>

definition test_oracle :: oracle_world where
  "test_oracle =
     \<lparr>CHAINS_WITH_PRICE_ORACLES = [1],
      GAS_ESTIMATES = (\<lambda>a. case a of ActPrepare \<Rightarrow> 100000 | ActFulfill \<Rightarrow> 200000 | ActCancel \<Rightarrow> 100000),
      getTokenPrice = (\<lambda>_ a. if a = AddressZero then 31000000000000000000 else 7000000000000000000),
      getGasPrice = (\<lambda>_. 5000000000)\<rparr>"

text \<open>What scenario S1 answers, and the state it leaves behind.\<close>

definition s1_response :: AuctionResponse where
  "s1_response =
     \<lparr>bid =
        \<lparr>bid_user = ''0xa11ce'', bid_router = ''0x4073'', bid_initiator = ''0xa11ce'',
         bid_sendingChainId = 1337, bid_sendingAssetId = ''0xa55e71'', bid_amount = ''1000000'',
         bid_receivingChainId = 1338, bid_receivingAssetId = ''0xa55e72'',
         bid_amountReceived = 998000, bid_receivingAddress = ''0xb0b'',
         bid_transactionId = ''0x01'', bid_expiry = 1700100000, bid_callDataHash = ''0x00'',
         bid_callTo = AddressZero, bid_encryptedCallData = ''0x'',
         bid_sendingChainTxManagerAddress = ''0x7a'',
         bid_receivingChainTxManagerAddress = ''0x7a'', bid_bidExpiry = 1700000300\<rparr>,
      bidSignature = Some ''0x51'', gasFeeInReceivingToken = 1000\<rparr>"

definition s1_labels :: AuctionLabels where
  "s1_labels =
     \<lparr>label_sendingAssetId = ''0xa55e71'', label_receivingAssetId = ''0xa55e72'',
      label_sendingChainId = 1338, label_receivingChainId = 1338\<rparr>"

definition s1_after :: router_state where
  "s1_after =
     \<lparr>receivedAuction = (\<lambda>_. 0)(s1_labels := 1),
      AUCTION_REQUEST_MAP = [''0xa11ce-0xa55e71-1337-0xa55e72-1338'' \<mapsto> 1700000000000],
      cancel_calls = []\<rparr>"

text \<open>The call the chain writer receives when the sender side of the transaction is cancelled.\<close>

definition s5_call :: "nat \<Rightarrow> CancelCall" where
  "s5_call chain =
     \<lparr>call_chainId = chain, call_invariant = s5_invariant, call_amount = ''1000000'',
      call_expiry = 1700100000, call_preparedBlockNumber = 10, call_signature = ''0x'',
      call_relayerFeeAsset = AddressZero, call_relayerFee = 0\<rparr>"

section \<open>Lemmas about the effect discipline\<close>

lemma returnE_eq: "returnE x s = (r, s') \<longleftrightarrow> r = Inr x \<and> s' = s"
  by (auto simp: returnE_def)

lemma throwE_eq: "throwE e s = (r, s') \<longleftrightarrow> r = Inl e \<and> s' = s"
  by (auto simp: throwE_def)

lemma bindE_Inr:
  "bindE m f s = (Inr y, s') \<longleftrightarrow> (\<exists>x s1. m s = (Inr x, s1) \<and> f x s1 = (Inr y, s'))"
  by (auto simp: bindE_def split: prod.splits sum.splits)

lemma bindE_Inl:
  "bindE m f s = (Inl e, s') \<longleftrightarrow>
     m s = (Inl e, s') \<or> (\<exists>x s1. m s = (Inr x, s1) \<and> f x s1 = (Inl e, s'))"
  by (auto simp: bindE_def split: prod.splits sum.splits)

lemma throwIf_Inr: "throwIf c e s = (Inr u, s') \<longleftrightarrow> \<not> c \<and> s' = s"
  by (auto simp: throwIf_def returnE_def throwE_def)

lemma throwIf_Inl: "throwIf c e s = (Inl e', s') \<longleftrightarrow> c \<and> e' = e \<and> s' = s"
  by (auto simp: throwIf_def returnE_def throwE_def)

lemma awaitE_Inr: "awaitE r s = (Inr v, s') \<longleftrightarrow> r = Inr v \<and> s' = s"
  by (auto simp: awaitE_def returnE_def throwE_def split: sum.splits)

lemma awaitE_Inl:
  "awaitE r s = (Inl e, s') \<longleftrightarrow> (\<exists>msg. r = Inl msg \<and> e = Thrown msg) \<and> s' = s"
  by (auto simp: awaitE_def returnE_def throwE_def split: sum.splits)

lemma definedE_Inr: "definedE v s = (Inr x, s') \<longleftrightarrow> v = Some x \<and> s' = s"
  by (auto simp: definedE_def returnE_def throwE_def split: option.splits)

lemma definedE_Inl:
  "definedE v s = (Inl e, s') \<longleftrightarrow> v = None \<and> e = Thrown ''TypeError'' \<and> s' = s"
  by (auto simp: definedE_def returnE_def throwE_def split: option.splits)

lemma option_op_Inr:
  "(case v of None \<Rightarrow> throwE e | Some idx \<Rightarrow> returnE idx) s = (Inr x, s') \<longleftrightarrow> v = Some x \<and> s' = s"
  by (auto simp: returnE_eq throwE_eq split: option.splits)

lemma option_op_Inl:
  "(case v of None \<Rightarrow> throwE e | Some idx \<Rightarrow> returnE idx) s = (Inl e', s') \<longleftrightarrow>
     v = None \<and> e' = e \<and> s' = s"
  by (auto simp: returnE_eq throwE_eq split: option.splits)

lemma fst_eq_iff: "fst p = a \<longleftrightarrow> (\<exists>s'. p = (a, s'))"
  by (cases p) auto

lemma pure_returnE: "pure_op (returnE x)"
  by (simp add: pure_op_def returnE_def)

lemma pure_throwIf: "pure_op (throwIf c e)"
  by (simp add: pure_op_def throwIf_def returnE_def throwE_def)

lemma pure_awaitE: "pure_op (awaitE r)"
  by (simp add: pure_op_def awaitE_def returnE_def throwE_def split: sum.splits)

lemma pure_definedE: "pure_op (definedE r)"
  by (simp add: pure_op_def definedE_def returnE_def throwE_def split: option.splits)

lemma pure_bindE: "pure_op m \<Longrightarrow> (\<And>x. pure_op (f x)) \<Longrightarrow> pure_op (bindE m f)"
  unfolding pure_op_def bindE_def
  by (auto split: prod.splits sum.splits) (metis snd_conv)+

lemma pure_mapE: "(\<And>x. pure_op (f x)) \<Longrightarrow> pure_op (mapE f xs)"
  by (induction xs) (auto intro!: pure_bindE pure_returnE)

lemma pure_opD: "pure_op m \<Longrightarrow> m s = (r, s') \<Longrightarrow> s' = s"
  by (metis pure_op_def snd_conv)

section \<open>Lemmas about the steps of newAuction\<close>

lemma pure_routerBalanceInEther: "pure_op (routerBalanceInEther w a)"
  unfolding routerBalanceInEther_def
  by (intro pure_bindE pure_awaitE pure_definedE pure_throwIf pure_returnE)

lemma routerBalances_state: "mapE (routerBalanceInEther w) xs s = (r, s') \<Longrightarrow> s' = s"
  by (rule pure_opD [OF pure_mapE [OF pure_routerBalanceInEther]])

lemma routerBalanceInEther_Inl:
  "routerBalanceInEther w a s = (Inl e, s') \<Longrightarrow> \<exists>msg. e = Thrown msg"
  unfolding routerBalanceInEther_def
  by (auto simp: bindE_Inl awaitE_Inl definedE_Inl throwIf_Inl returnE_eq)

lemma routerBalances_Inl:
  "mapE (routerBalanceInEther w) xs s = (Inl e, s') \<Longrightarrow> \<exists>msg. e = Thrown msg"
proof (induction xs arbitrary: s s')
  case Nil
  then show ?case by (simp add: returnE_eq)
next
  case (Cons a xs)
  then show ?case
    by (auto simp: bindE_Inl returnE_eq dest: routerBalanceInEther_Inl)
qed

lemma routerBalances_thrown:
  "mapE (routerBalanceInEther w) xs s = (Inl e, s') \<Longrightarrow> (\<exists>msg. e = Thrown msg) \<and> s' = s"
  using routerBalances_Inl [of w xs s e s'] routerBalances_state [of w xs s "Inl e" s']
  by simp

lemma routerBalances_answer:
  "mapE (routerBalanceInEther w) xs s = (Inr balances, s') \<Longrightarrow> s' = s"
  by (rule routerBalances_state)

lemma AUCTION_REQUEST_MAP_get_eq:
  "AUCTION_REQUEST_MAP_get k s = (r, s') \<longleftrightarrow> r = Inr (AUCTION_REQUEST_MAP s k) \<and> s' = s"
  by (auto simp: AUCTION_REQUEST_MAP_get_def)

lemma AUCTION_REQUEST_MAP_set_eq:
  "AUCTION_REQUEST_MAP_set k v s = (r, s') \<longleftrightarrow>
     r = Inr () \<and> s' = s\<lparr>AUCTION_REQUEST_MAP := (AUCTION_REQUEST_MAP s)(k \<mapsto> v)\<rparr>"
  by (auto simp: AUCTION_REQUEST_MAP_set_def)

lemma receivedAuction_inc_eq:
  "receivedAuction_inc l s = (r, s') \<longleftrightarrow>
     r = Inr () \<and> s' = s\<lparr>receivedAuction := (receivedAuction s)(l := receivedAuction s l + 1)\<rparr>"
  by (auto simp: receivedAuction_inc_def)

lemmas op_Inr = bindE_Inr throwIf_Inr awaitE_Inr definedE_Inr returnE_eq throwE_eq option_op_Inr
  AUCTION_REQUEST_MAP_get_eq AUCTION_REQUEST_MAP_set_eq receivedAuction_inc_eq

lemmas op_Inl = bindE_Inl throwIf_Inl awaitE_Inl definedE_Inl option_op_Inl




section \<open>Decimal strings are read back by BigNumber.from\<close>









section \<open>Lemmas about the steps of cancel\<close>

lemma dispatch_cancel_eq:
  "dispatch_cancel w call s = (r, s') \<longleftrightarrow>
     r = (case contractWriter_cancel w call of Inl msg \<Rightarrow> Inl (Thrown msg) | Inr x \<Rightarrow> Inr x) \<and>
     s' = s\<lparr>cancel_calls := cancel_calls s @ [call]\<rparr>"
  by (auto simp: dispatch_cancel_def)

lemma cancel_receiver_Inl:
  "cancel_receiver w invariantData s = (Inl e, s') \<Longrightarrow> \<exists>msg. e = Thrown msg"
  unfolding cancel_receiver_def
  by (auto simp: op_Inl op_Inr split: if_splits)

lemma dispatch_cancel_Inl:
  "dispatch_cancel w call s = (Inl e, s') \<Longrightarrow> \<exists>msg. e = Thrown msg"
  by (auto simp: dispatch_cancel_eq split: sum.splits)

section \<open>A lemma about 256-bit division\<close>

lemma word_div_less: "(x::256 word) < y \<Longrightarrow> x div y = 0"
  by (simp add: word_less_nat_alt unat_eq_zero [symmetric] unat_div)

section \<open>The scenarios, evaluated\<close>

lemmas run_defs = bindE_def throwIf_def awaitE_def definedE_def returnE_def throwE_def
  receivedAuction_inc_def AUCTION_REQUEST_MAP_get_def AUCTION_REQUEST_MAP_set_def
  rate_exceeded_def no_providers_def routerBalanceInEther_def BigNumber_from_def
  unsigned_from_def dec_digit_def

lemmas s1_defs = s1_world_def s1_payload_def s1_chain_def idle_state_def

lemma s1_key: "auction_key s1_payload = ''0xa11ce-0xa55e71-1337-0xa55e72-1338''"
  by (simp add: auction_key_def s1_payload_def string_of_nat.simps digit_char_def)


lemma s1_run: "newAuction s1_world s1_payload idle_state = (Inr s1_response, s1_after)"
  by (simp add: newAuction_def s1_defs run_defs s1_response_def s1_after_def s1_labels_def
        auction_key_def string_of_nat.simps digit_char_def)

section \<open>The claims about newAuction\<close>

text \<open>
  C1 (as amended). A bid is produced only when the AMM quote, parsed to the integer
  \<open>received\<close>, is at least the gas fee \<open>fee\<close> in the receiving token: the bid's
  \<open>amountReceived\<close> is then \<open>received - fee\<close>, it is never negative (and zero exactly
  when the quote equals the fee), and it does not exceed the router's liquidity on the
  receiving side. \<open>NotEnoughAmount\<close> is thrown only when the quote is strictly less than
  the fee.
\<close>

theorem newAuction_bid_amountReceived:
  "(newAuction w data s = (Inr r, s') \<longrightarrow>
      (\<exists>inputDecimals outputDecimals balances sendingChainIdx receivingChainIdx quote received fee liquidity.
         getReceiverAmount w (amount data) inputDecimals outputDecimals balances sendingChainIdx
           receivingChainIdx (maxPriceImpact w) (amplification w) (allowedVAMM w) = Inr quote \<and>
         BigNumber_from quote = Some received \<and>
         calculateGasFeeInReceivingToken w (sendingAssetId data) (sendingChainId data)
           (receivingAssetId data) (receivingChainId data) outputDecimals = Inr fee \<and>
         getAssetBalance w (receivingAssetId data) (receivingChainId data) = Inr liquidity \<and>
         fee \<le> received \<and>
         gasFeeInReceivingToken r = fee \<and>
         bid_amountReceived (bid r) = received - fee \<and>
         0 \<le> bid_amountReceived (bid r) \<and>
         (bid_amountReceived (bid r) = 0 \<longleftrightarrow> received = fee) \<and>
         bid_amountReceived (bid r) \<le> liquidity)) \<and>
   (newAuction w data s = (Inl NotEnoughAmount, s'') \<longrightarrow>
      (\<exists>inputDecimals outputDecimals balances sendingChainIdx receivingChainIdx quote received fee.
         getReceiverAmount w (amount data) inputDecimals outputDecimals balances sendingChainIdx
           receivingChainIdx (maxPriceImpact w) (amplification w) (allowedVAMM w) = Inr quote \<and>
         BigNumber_from quote = Some received \<and>
         calculateGasFeeInReceivingToken w (sendingAssetId data) (sendingChainId data)
           (receivingAssetId data) (receivingChainId data) outputDecimals = Inr fee \<and>
         received < fee))"
proof (intro conjI impI)
  assume "newAuction w data s = (Inr r, s')"
  then show "\<exists>inputDecimals outputDecimals balances sendingChainIdx receivingChainIdx quote received fee liquidity.
         getReceiverAmount w (amount data) inputDecimals outputDecimals balances sendingChainIdx
           receivingChainIdx (maxPriceImpact w) (amplification w) (allowedVAMM w) = Inr quote \<and>
         BigNumber_from quote = Some received \<and>
         calculateGasFeeInReceivingToken w (sendingAssetId data) (sendingChainId data)
           (receivingAssetId data) (receivingChainId data) outputDecimals = Inr fee \<and>
         getAssetBalance w (receivingAssetId data) (receivingChainId data) = Inr liquidity \<and>
         fee \<le> received \<and>
         gasFeeInReceivingToken r = fee \<and>
         bid_amountReceived (bid r) = received - fee \<and>
         0 \<le> bid_amountReceived (bid r) \<and>
         (bid_amountReceived (bid r) = 0 \<longleftrightarrow> received = fee) \<and>
         bid_amountReceived (bid r) \<le> liquidity"
    unfolding newAuction_def
    apply (clarsimp simp: op_Inr split: option.splits prod.splits dest!: routerBalances_state)
    apply (intro exI conjI)
            apply (assumption | simp)+
    done
next
  assume "newAuction w data s = (Inl NotEnoughAmount, s'')"
  then show "\<exists>inputDecimals outputDecimals balances sendingChainIdx receivingChainIdx quote received fee.
         getReceiverAmount w (amount data) inputDecimals outputDecimals balances sendingChainIdx
           receivingChainIdx (maxPriceImpact w) (amplification w) (allowedVAMM w) = Inr quote \<and>
         BigNumber_from quote = Some received \<and>
         calculateGasFeeInReceivingToken w (sendingAssetId data) (sendingChainId data)
           (receivingAssetId data) (receivingChainId data) outputDecimals = Inr fee \<and>
         received < fee"
    unfolding newAuction_def
    apply (clarsimp simp: op_Inr op_Inl split: option.splits prod.splits
        dest!: routerBalances_thrown routerBalances_answer)
    apply (elim disjE exE conjE)
     apply (auto dest!: routerBalances_thrown)[1]
    apply (clarsimp dest!: routerBalances_answer)
    apply (intro exI conjI; assumption)
    done
qed

text \<open>
  Scenario S1: a quote of 999000 and a fee of 1000 give a bid of 998000, within the
  liquidity of 5000000. With a fee of 1000000, above the quote, the request is refused
  with \<open>NotEnoughAmount\<close>.
\<close>

theorem newAuction_bid_amountReceived_witness:
  "newAuction s1_world s1_payload idle_state = (Inr s1_response, s1_after) \<and>
   bid_amountReceived (bid s1_response) = 999000 - 1000 \<and>
   0 \<le> bid_amountReceived (bid s1_response) \<and>
   bid_amountReceived (bid s1_response) \<le> 5000000 \<and>
   fst (newAuction (s1_world\<lparr>calculateGasFeeInReceivingToken := (\<lambda>_ _ _ _ _. Inr 1000000)\<rparr>)
          s1_payload idle_state) = Inl NotEnoughAmount \<and>
   (\<exists>received. BigNumber_from ''999000'' = Some received \<and> received < 1000000)"
proof -
  let ?dear = "s1_world\<lparr>calculateGasFeeInReceivingToken := (\<lambda>_ _ _ _ _. Inr 1000000)\<rparr>"
  have refused: "fst (newAuction ?dear s1_payload idle_state) = Inl NotEnoughAmount"
    by (simp add: newAuction_def s1_defs run_defs)
  then have "newAuction ?dear s1_payload idle_state =
      (Inl NotEnoughAmount, snd (newAuction ?dear s1_payload idle_state))"
    by (simp add: prod_eq_iff)
  then have "\<exists>inputDecimals outputDecimals balances sendingChainIdx receivingChainIdx quote received fee.
         getReceiverAmount ?dear (amount s1_payload) inputDecimals outputDecimals balances sendingChainIdx
           receivingChainIdx (maxPriceImpact ?dear) (amplification ?dear) (allowedVAMM ?dear) = Inr quote \<and>
         BigNumber_from quote = Some received \<and>
         calculateGasFeeInReceivingToken ?dear (sendingAssetId s1_payload) (sendingChainId s1_payload)
           (receivingAssetId s1_payload) (receivingChainId s1_payload) outputDecimals = Inr fee \<and>
         received < fee"
    using newAuction_bid_amountReceived [of ?dear s1_payload idle_state _ _
            "snd (newAuction ?dear s1_payload idle_state)"]
    by blast
  then have below: "\<exists>received. BigNumber_from ''999000'' = Some received \<and> received < 1000000"
    by (auto simp: s1_world_def)
  have "\<exists>received fee liquidity.
         fee \<le> received \<and> bid_amountReceived (bid s1_response) = received - fee \<and>
         0 \<le> bid_amountReceived (bid s1_response) \<and>
         getAssetBalance s1_world (receivingAssetId s1_payload) (receivingChainId s1_payload) =
           Inr liquidity \<and>
         bid_amountReceived (bid s1_response) \<le> liquidity"
    using newAuction_bid_amountReceived [of s1_world s1_payload idle_state s1_response s1_after]
      s1_run
    by blast
  then have "0 \<le> bid_amountReceived (bid s1_response) \<and>
             bid_amountReceived (bid s1_response) \<le> 5000000"
    by (auto simp: s1_world_def)
  moreover have "bid_amountReceived (bid s1_response) = 999000 - 1000"
    by (simp add: s1_response_def)
  ultimately show ?thesis
    using s1_run refused below by blast
qed

text \<open>
  C1 as stated fails: when the AMM quote equals the gas fee (here both are 999000), the
  check of line 241 lets the request through and the bid carries \<open>amountReceived = 0\<close>.
\<close>

theorem newAuction_bid_amountReceived_zero:
  "map_sum id (\<lambda>r. bid_amountReceived (bid r))
     (fst (newAuction (s1_world\<lparr>calculateGasFeeInReceivingToken := (\<lambda>_ _ _ _ _. Inr 999000)\<rparr>)
        s1_payload idle_state)) = Inr 0"
  by (simp add: newAuction_def s1_defs run_defs)






text \<open>
  C6. The counter is incremented on every invocation, before anything can throw, but the
  label \<open>sendingChainId\<close> is set from \<open>data.receivingChainId\<close> (line 38), not from
  \<open>data.sendingChainId\<close> as the claim requires. For the request of scenario S1, from
  chain 1337 to chain 1338, the only label set counted carries \<open>sendingChainId = 1338\<close>,
  and the label set the claim describes stays at zero.
\<close>

theorem newAuction_receivedAuction_labels:
  "receivedAuction (snd (newAuction s1_world s1_payload idle_state)) =
     (\<lambda>_. 0)(\<lparr>label_sendingAssetId = sendingAssetId s1_payload,
               label_receivingAssetId = receivingAssetId s1_payload,
               label_sendingChainId = 1338,
               label_receivingChainId = 1338\<rparr> := 1) \<and>
   sendingChainId s1_payload = 1337 \<and>
   receivedAuction (snd (newAuction s1_world s1_payload idle_state))
     \<lparr>label_sendingAssetId = sendingAssetId s1_payload,
      label_receivingAssetId = receivingAssetId s1_payload,
      label_sendingChainId = sendingChainId s1_payload,
      label_receivingChainId = receivingChainId s1_payload\<rparr> = 0"
proof -
  have "snd (newAuction s1_world s1_payload idle_state) = s1_after"
    by (simp add: s1_run)
  then show ?thesis
    by (simp add: s1_after_def s1_labels_def s1_payload_def)
qed

text \<open>
  C7. For a request that reaches the expiry check of lines 114-123 (it passes schema
  validation, its amount is a non-zero integer, the clock and the wallet answer, and the
  rate limit is not exceeded), \<open>newAuction\<close> throws \<open>AuctionExpired\<close> if and only if
  \<open>expiry \<le> currentTime + AUCTION_EXPIRY_BUFFER\<close>; a payload with a later expiry passes
  the check.
\<close>

theorem newAuction_expired:
  assumes "validateInput w data"
    and "BigNumber_from (amount data) = Some a" and "a \<noteq> 0"
    and "getNtpTimeSeconds w = Inr currentTime"
    and "wallet_getAddress w = Inr routerAddress"
    and "\<not> rate_exceeded (AUCTION_REQUEST_MAP s (auction_key data)) (requestLimit w) currentTime"
  shows "fst (newAuction w data s) = Inl AuctionExpired \<longleftrightarrow>
           expiry data \<le> currentTime + AUCTION_EXPIRY_BUFFER w"
  using assms unfolding newAuction_def fst_eq_iff
  by (auto simp: op_Inr op_Inl split: option.splits prod.splits
        dest!: routerBalances_state routerBalances_Inl)

text \<open>
  With the clock at 1700000000 and a buffer of 300 seconds, an expiry of 1700000300 is
  refused and an expiry of 1700000301 is not.
\<close>

theorem newAuction_expired_witness:
  "fst (newAuction s1_world (s1_payload\<lparr>expiry := 1700000300\<rparr>) idle_state) = Inl AuctionExpired \<and>
   fst (newAuction s1_world (s1_payload\<lparr>expiry := 1700000301\<rparr>) idle_state) \<noteq> Inl AuctionExpired"
proof -
  have "fst (newAuction s1_world (s1_payload\<lparr>expiry := e\<rparr>) idle_state) = Inl AuctionExpired \<longleftrightarrow>
          expiry (s1_payload\<lparr>expiry := e\<rparr>) \<le> 1700000000 + AUCTION_EXPIRY_BUFFER s1_world" for e
    by (rule newAuction_expired [where a = 1000000 and routerAddress = "''0x4073''"])
       (simp_all add: s1_defs rate_exceeded_def BigNumber_from_def unsigned_from_def dec_digit_def)
  then show ?thesis
    by (simp add: s1_world_def)
qed

text \<open>
  C8. For a request that has passed every check up to and including the provider
  configuration check of lines 133-147, and for which \<open>getSyncRecords\<close> answers with a
  list for both chains, \<open>newAuction\<close> throws \<open>SubgraphNotSynced\<close> if and only if the
  receiving chain's list or the sending chain's list has no record with
  \<open>synced = true\<close>.
\<close>

theorem newAuction_not_synced:
  assumes "validateInput w data"
    and "BigNumber_from (amount data) = Some a" and "a \<noteq> 0"
    and "getNtpTimeSeconds w = Inr currentTime"
    and "wallet_getAddress w = Inr routerAddress"
    and "\<not> rate_exceeded (AUCTION_REQUEST_MAP s (auction_key data)) (requestLimit w) currentTime"
    and "currentTime + AUCTION_EXPIRY_BUFFER w < expiry data"
    and "getDecimalsForAsset w (sendingChainId data) (sendingAssetId data) = Inr inputDecimals"
    and "getDecimalsForAsset w (receivingChainId data) (receivingAssetId data) = Inr outputDecimals"
    and "\<not> no_providers (chainConfig w (sendingChainId data))"
    and "\<not> no_providers (chainConfig w (receivingChainId data))"
    and "getSyncRecords w (receivingChainId data) = Inr receivingSyncRecords"
    and "getSyncRecords w (sendingChainId data) = Inr sendingSyncRecords"
  shows "fst (newAuction w data s) = Inl SubgraphNotSynced \<longleftrightarrow>
           \<not> (\<exists>record \<in> set receivingSyncRecords. synced record) \<or>
           \<not> (\<exists>record \<in> set sendingSyncRecords. synced record)"
  using assms unfolding newAuction_def fst_eq_iff
  by (auto simp: op_Inr op_Inl no_providers_def list_ex_iff split: option.splits prod.splits
        dest!: routerBalances_state routerBalances_Inl)

text \<open>
  Scenario S3: the indexer of the receiving chain 1338 reports \<open>synced = false\<close>, that of
  the sending chain is synced; the request is refused. With both synced (S1) it is not.
\<close>

theorem newAuction_not_synced_witness:
  "fst (newAuction
          (s1_world\<lparr>getSyncRecords :=
             (\<lambda>chain. Inr [\<lparr>synced = (chain \<noteq> 1338), latestBlock = 100, syncedBlock = 90,
                             uri = ''http://subgraph''\<rparr>])\<rparr>)
          s1_payload idle_state) = Inl SubgraphNotSynced \<and>
   fst (newAuction s1_world s1_payload idle_state) \<noteq> Inl SubgraphNotSynced"
proof -
  let ?lagging = "\<lambda>chain. Inr [\<lparr>synced = (chain \<noteq> (1338::nat)), latestBlock = 100, syncedBlock = 90,
                                 uri = ''http://subgraph''\<rparr>]"
  have "fst (newAuction (s1_world\<lparr>getSyncRecords := ?lagging\<rparr>) s1_payload idle_state) =
          Inl SubgraphNotSynced \<longleftrightarrow>
        \<not> (\<exists>record \<in> set [\<lparr>synced = False, latestBlock = 100, syncedBlock = 90,
                               uri = ''http://subgraph''\<rparr>]. synced record) \<or>
        \<not> (\<exists>record \<in> set [\<lparr>synced = True, latestBlock = 100, syncedBlock = 90,
                               uri = ''http://subgraph''\<rparr>]. synced record)"
    by (rule newAuction_not_synced [where a = 1000000 and routerAddress = "''0x4073''"
          and currentTime = 1700000000 and inputDecimals = 18 and outputDecimals = 18])
       (simp_all add: s1_defs rate_exceeded_def no_providers_def BigNumber_from_def
          unsigned_from_def dec_digit_def)
  moreover
  have "fst (newAuction s1_world s1_payload idle_state) = Inl SubgraphNotSynced \<longleftrightarrow>
        \<not> (\<exists>record \<in> set [\<lparr>synced = True, latestBlock = 100, syncedBlock = 100,
                               uri = ''http://subgraph''\<rparr>]. synced record) \<or>
        \<not> (\<exists>record \<in> set [\<lparr>synced = True, latestBlock = 100, syncedBlock = 100,
                               uri = ''http://subgraph''\<rparr>]. synced record)"
    by (rule newAuction_not_synced [where a = 1000000 and routerAddress = "''0x4073''"
          and currentTime = 1700000000 and inputDecimals = 18 and outputDecimals = 18])
       (simp_all add: s1_defs rate_exceeded_def no_providers_def BigNumber_from_def
          unsigned_from_def dec_digit_def)
  ultimately show ?thesis
    by simp
qed

text \<open>
  C9. Whenever \<open>newAuction\<close> throws, whatever the error and whoever raised it, the rate
  limiter's map is afterwards what it was before, for every key. When it returns, the bid
  of the response is the one that was signed, and the map differs from the one before
  only at the request's key, which now holds the request's time in milliseconds.
\<close>

theorem newAuction_rate_limiter_frame:
  "(newAuction w data s = (Inl e, s') \<longrightarrow> AUCTION_REQUEST_MAP s' = AUCTION_REQUEST_MAP s) \<and>
   (newAuction w data s = (Inr r, s'') \<longrightarrow>
      (\<exists>currentTime signature. getNtpTimeSeconds w = Inr currentTime \<and>
         signAuctionBid w (bid r) = Inr signature \<and>
         AUCTION_REQUEST_MAP s'' = (AUCTION_REQUEST_MAP s)(auction_key data \<mapsto> currentTime * 1000)))"
proof (intro conjI impI)
  assume "newAuction w data s = (Inl e, s')"
  then show "AUCTION_REQUEST_MAP s' = AUCTION_REQUEST_MAP s"
    unfolding newAuction_def
    by (auto simp: op_Inr op_Inl split: option.splits prod.splits dest!: routerBalances_state)
next
  assume "newAuction w data s = (Inr r, s'')"
  then show "\<exists>currentTime signature. getNtpTimeSeconds w = Inr currentTime \<and>
         signAuctionBid w (bid r) = Inr signature \<and>
         AUCTION_REQUEST_MAP s'' = (AUCTION_REQUEST_MAP s)(auction_key data \<mapsto> currentTime * 1000)"
    unfolding newAuction_def
    by (auto simp: op_Inr split: option.splits prod.splits dest!: routerBalances_state)
qed

text \<open>
  The request of S1 one second after S1 is refused by the rate limiter, and the map still
  holds the time of S1; a failing signer leaves an empty map empty; S1 itself records its
  time.
\<close>

theorem newAuction_rate_limiter_frame_witness:
  "fst (newAuction (s1_world\<lparr>getNtpTimeSeconds := Inr 1700000001\<rparr>) s1_payload s1_after) =
     Inl AuctionRateExceeded \<and>
   AUCTION_REQUEST_MAP (snd (newAuction (s1_world\<lparr>getNtpTimeSeconds := Inr 1700000001\<rparr>) s1_payload s1_after)) =
     [auction_key s1_payload \<mapsto> 1700000000000] \<and>
   fst (newAuction (s1_world\<lparr>signAuctionBid := (\<lambda>_. Inl ''signer unreachable'')\<rparr>) s1_payload idle_state) =
     Inl (Thrown ''signer unreachable'') \<and>
   AUCTION_REQUEST_MAP (snd (newAuction (s1_world\<lparr>signAuctionBid := (\<lambda>_. Inl ''signer unreachable'')\<rparr>)
       s1_payload idle_state)) = Map.empty \<and>
   AUCTION_REQUEST_MAP (snd (newAuction s1_world s1_payload idle_state)) =
     [auction_key s1_payload \<mapsto> 1700000000 * 1000]"
proof -
  let ?later = "s1_world\<lparr>getNtpTimeSeconds := Inr 1700000001\<rparr>"
  let ?unsigned = "s1_world\<lparr>signAuctionBid := (\<lambda>_. Inl ''signer unreachable'')\<rparr>"
  have limited: "fst (newAuction ?later s1_payload s1_after) = Inl AuctionRateExceeded"
    by (simp add: newAuction_def s1_defs s1_after_def run_defs auction_key_def
          string_of_nat.simps digit_char_def)
  have unsigned: "fst (newAuction ?unsigned s1_payload idle_state) = Inl (Thrown ''signer unreachable'')"
    by (simp add: newAuction_def s1_defs run_defs)
  have "AUCTION_REQUEST_MAP (snd (newAuction ?later s1_payload s1_after)) = AUCTION_REQUEST_MAP s1_after"
    using newAuction_rate_limiter_frame
            [of ?later s1_payload s1_after AuctionRateExceeded
                "snd (newAuction ?later s1_payload s1_after)"]
      limited
    by (simp add: prod_eq_iff)
  moreover
  have "AUCTION_REQUEST_MAP (snd (newAuction ?unsigned s1_payload idle_state)) =
          AUCTION_REQUEST_MAP idle_state"
    using newAuction_rate_limiter_frame
            [of ?unsigned s1_payload idle_state "Thrown ''signer unreachable''"
                "snd (newAuction ?unsigned s1_payload idle_state)"]
      unsigned
    by (simp add: prod_eq_iff)
  moreover
  have "\<exists>currentTime signature. getNtpTimeSeconds s1_world = Inr currentTime \<and>
         signAuctionBid s1_world (bid s1_response) = Inr signature \<and>
         AUCTION_REQUEST_MAP s1_after =
           (AUCTION_REQUEST_MAP idle_state)(auction_key s1_payload \<mapsto> currentTime * 1000)"
    using newAuction_rate_limiter_frame [of s1_world s1_payload idle_state _ _ s1_response s1_after]
      s1_run
    by simp
  then have "AUCTION_REQUEST_MAP s1_after = [auction_key s1_payload \<mapsto> 1700000000 * 1000]"
    by (auto simp: s1_world_def idle_state_def)
  ultimately show ?thesis
    using limited unsigned s1_run
    by (simp add: s1_after_def idle_state_def s1_key)
qed

section \<open>The claims about cancel\<close>

text \<open>
  C2. Take a cancel of the sender side (\<open>side = "sender"\<close>) at NTP time \<open>currentTime\<close>.

  (a) If the receiver-side lookup finds a record whose status is not \<open>Cancelled\<close> and
  whose expiry lies after \<open>currentTime\<close>, nothing is handed to the chain writer and the
  operation ends in an error; for valid inputs the error is \<open>ReceiverTxExists\<close>.

  (b) If the block of the sender's prepare transaction has a timestamp with
  \<open>currentTime < timestamp + 780\<close>, nothing is handed to the chain writer and the
  operation ends in an error; for valid inputs that got past (a) (the receiver record is
  absent, cancelled or expired) the error is \<open>SenderTxTooNew\<close>.
\<close>

theorem cancel_sender_guards:
  assumes "side input = ''sender''"
    and "getNtpTimeSeconds w = Inr currentTime"
  shows
    "(\<forall>existing.
        getTransactionForChain w (tx_transactionId invariantData) (tx_user invariantData)
          (tx_receivingChainId invariantData) = Inr (Some existing) \<and>
        status existing \<noteq> Cancelled \<and> currentTime < txData_expiry existing \<longrightarrow>
          cancel_calls (snd (cancel w invariantData input s)) = cancel_calls s \<and>
          (\<exists>e. fst (cancel w invariantData input s) = Inl e) \<and>
          (validateInvariantData w invariantData \<and> validateCancelInput w input \<longrightarrow>
             fst (cancel w invariantData input s) = Inl ReceiverTxExists)) \<and>
     (\<forall>receipt preparedBlock.
        getTransactionReceipt w (tx_sendingChainId invariantData) (preparedTransactionHash input) =
          Inr (Some receipt) \<and>
        getBlock w (tx_sendingChainId invariantData) (blockNumber receipt) = Inr (Some preparedBlock) \<and>
        currentTime < timestamp preparedBlock + 780 \<longrightarrow>
          cancel_calls (snd (cancel w invariantData input s)) = cancel_calls s \<and>
          (\<exists>e. fst (cancel w invariantData input s) = Inl e) \<and>
          (validateInvariantData w invariantData \<and> validateCancelInput w input \<and>
           (\<exists>existing.
              getTransactionForChain w (tx_transactionId invariantData) (tx_user invariantData)
                (tx_receivingChainId invariantData) = Inr existing \<and>
              (\<forall>ex. existing = Some ex \<longrightarrow> status ex = Cancelled \<or> txData_expiry ex \<le> currentTime)) \<longrightarrow>
             fst (cancel w invariantData input s) = Inl SenderTxTooNew))"
  using assms
  by (cases "getTransactionForChain w (tx_transactionId invariantData) (tx_user invariantData)
          (tx_receivingChainId invariantData)")
     (auto simp: cancel_def cancel_sender_def bindE_def throwIf_def awaitE_def definedE_def
        returnE_def throwE_def receiver_tx_exists_def sender_tx_too_new_def
        SENDER_PREPARE_BUFFER_TIME_def split: option.splits)

text \<open>
  A prepared, unexpired receiver record stops the sender cancel with \<open>ReceiverTxExists\<close>.
  Scenario S5: the sender prepared 600 seconds ago and there is no receiver record; the
  cancel is stopped with \<open>SenderTxTooNew\<close>. In both runs the chain writer receives nothing.
\<close>

theorem cancel_sender_guards_witness:
  "fst (cancel (s1_world\<lparr>getTransactionForChain :=
                  (\<lambda>_ _ _. Inr (Some \<lparr>status = Prepared, txData_expiry = 1700100000\<rparr>))\<rparr>)
          s5_invariant s5_input idle_state) = Inl ReceiverTxExists \<and>
   cancel_calls (snd (cancel (s1_world\<lparr>getTransactionForChain :=
                  (\<lambda>_ _ _. Inr (Some \<lparr>status = Prepared, txData_expiry = 1700100000\<rparr>))\<rparr>)
          s5_invariant s5_input idle_state)) = [] \<and>
   fst (cancel (s1_world\<lparr>getBlock := (\<lambda>_ _. Inr (Some \<lparr>timestamp = 1700000000 - 600\<rparr>))\<rparr>)
          s5_invariant s5_input idle_state) = Inl SenderTxTooNew \<and>
   cancel_calls (snd (cancel (s1_world\<lparr>getBlock := (\<lambda>_ _. Inr (Some \<lparr>timestamp = 1700000000 - 600\<rparr>))\<rparr>)
          s5_invariant s5_input idle_state)) = []"
proof -
  let ?held = "s1_world\<lparr>getTransactionForChain :=
                  (\<lambda>_ _ _. Inr (Some \<lparr>status = Prepared, txData_expiry = 1700100000\<rparr>))\<rparr>"
  let ?young = "s1_world\<lparr>getBlock := (\<lambda>_ _. Inr (Some \<lparr>timestamp = 1700000000 - 600\<rparr>))\<rparr>"
  have sender: "side s5_input = ''sender''"
    by (simp add: s5_input_def)
  have held: "getNtpTimeSeconds ?held = Inr 1700000000"
    and young: "getNtpTimeSeconds ?young = Inr 1700000000"
    by (simp_all add: s1_world_def)
  show ?thesis
    using cancel_sender_guards [OF sender held, of s5_invariant idle_state]
      cancel_sender_guards [OF sender young, of s5_invariant idle_state]
    by (simp add: s1_world_def s5_input_def idle_state_def)
qed

text \<open>
  C10. The errors \<open>ReceiverTxExists\<close> and \<open>SenderTxTooNew\<close> are thrown only when
  \<open>side = "sender"\<close>. With \<open>side = "receiver"\<close> the operation does not depend on the
  receiver-record lookup, on the clock, on the receipt of the prepare transaction or on
  its block, whatever they would answer; and for valid inputs the cancel is handed to the
  chain writer for the receiving chain: at once when the router is not a router contract,
  and with the relayer fee asset and fee when it is and the collaborators that compute
  the fee answer.
\<close>

theorem cancel_receiver_unguarded:
  "(fst (cancel w invariantData input s) = Inl ReceiverTxExists \<or>
    fst (cancel w invariantData input s) = Inl SenderTxTooNew \<longrightarrow> side input = ''sender'') \<and>
   (side input = ''receiver'' \<longrightarrow>
      cancel (w\<lparr>getTransactionForChain := lookup, getNtpTimeSeconds := clock,
                getTransactionReceipt := receipts, getBlock := blocks\<rparr>) invariantData input s =
      cancel w invariantData input s) \<and>
   (side input = ''receiver'' \<and> validateInvariantData w invariantData \<and> validateCancelInput w input \<and>
    \<not> isRouterContract w \<longrightarrow>
      cancel_calls (snd (cancel w invariantData input s)) =
        cancel_calls s @
          [\<lparr>call_chainId = tx_receivingChainId invariantData, call_invariant = invariantData,
            call_amount = variant_amount input, call_expiry = variant_expiry input,
            call_preparedBlockNumber = variant_preparedBlockNumber input, call_signature = ''0x'',
            call_relayerFeeAsset = AddressZero, call_relayerFee = 0\<rparr>]) \<and>
   (\<forall>cfg asset decimals fee.
      side input = ''receiver'' \<and> validateInvariantData w invariantData \<and> validateCancelInput w input \<and>
      isRouterContract w \<and>
      chainConfig w (tx_receivingChainId invariantData) = Some cfg \<and>
      utils_getAddress w (case routerContractRelayerAsset cfg of
                            None \<Rightarrow> AddressZero
                          | Some a \<Rightarrow> if a = [] then AddressZero else a) = Inr asset \<and>
      txService_getDecimalsForAsset w (tx_receivingChainId invariantData)
        (tx_receivingAssetId invariantData) = Inr decimals \<and>
      calculateGasFee w (tx_receivingChainId invariantData) asset decimals ''cancel'' ''receiving'' = Inr fee \<longrightarrow>
      cancel_calls (snd (cancel w invariantData input s)) =
        cancel_calls s @
          [\<lparr>call_chainId = tx_receivingChainId invariantData, call_invariant = invariantData,
            call_amount = variant_amount input, call_expiry = variant_expiry input,
            call_preparedBlockNumber = variant_preparedBlockNumber input, call_signature = ''0x'',
            call_relayerFeeAsset = asset, call_relayerFee = fee\<rparr>])"
proof (intro conjI impI allI)
  assume "fst (cancel w invariantData input s) = Inl ReceiverTxExists \<or>
    fst (cancel w invariantData input s) = Inl SenderTxTooNew"
  then show "side input = ''sender''"
    unfolding cancel_def fst_eq_iff
    by (auto simp: op_Inl op_Inr split: if_splits prod.splits
          dest: cancel_receiver_Inl dispatch_cancel_Inl)
next
  assume "side input = ''receiver''"
  then show "cancel (w\<lparr>getTransactionForChain := lookup, getNtpTimeSeconds := clock,
                getTransactionReceipt := receipts, getBlock := blocks\<rparr>) invariantData input s =
      cancel w invariantData input s"
    by (simp add: cancel_def cancel_receiver_def dispatch_cancel_def)
next
  assume "side input = ''receiver'' \<and> validateInvariantData w invariantData \<and> validateCancelInput w input \<and>
    \<not> isRouterContract w"
  then show "cancel_calls (snd (cancel w invariantData input s)) =
        cancel_calls s @
          [\<lparr>call_chainId = tx_receivingChainId invariantData, call_invariant = invariantData,
            call_amount = variant_amount input, call_expiry = variant_expiry input,
            call_preparedBlockNumber = variant_preparedBlockNumber input, call_signature = ''0x'',
            call_relayerFeeAsset = AddressZero, call_relayerFee = 0\<rparr>]"
    by (simp add: cancel_def cancel_receiver_def dispatch_cancel_def bindE_def throwIf_def
          returnE_def throwE_def)
next
  fix cfg asset decimals fee
  assume "side input = ''receiver'' \<and> validateInvariantData w invariantData \<and> validateCancelInput w input \<and>
      isRouterContract w \<and>
      chainConfig w (tx_receivingChainId invariantData) = Some cfg \<and>
      utils_getAddress w (case routerContractRelayerAsset cfg of
                            None \<Rightarrow> AddressZero
                          | Some a \<Rightarrow> if a = [] then AddressZero else a) = Inr asset \<and>
      txService_getDecimalsForAsset w (tx_receivingChainId invariantData)
        (tx_receivingAssetId invariantData) = Inr decimals \<and>
      calculateGasFee w (tx_receivingChainId invariantData) asset decimals ''cancel'' ''receiving'' = Inr fee"
  then show "cancel_calls (snd (cancel w invariantData input s)) =
        cancel_calls s @
          [\<lparr>call_chainId = tx_receivingChainId invariantData, call_invariant = invariantData,
            call_amount = variant_amount input, call_expiry = variant_expiry input,
            call_preparedBlockNumber = variant_preparedBlockNumber input, call_signature = ''0x'',
            call_relayerFeeAsset = asset, call_relayerFee = fee\<rparr>]"
    by (simp add: cancel_def cancel_receiver_def dispatch_cancel_def bindE_def throwIf_def
          awaitE_def definedE_def returnE_def throwE_def)
qed

text \<open>
  The receiver side of the S5 transaction is cancelled although a prepared, unexpired
  receiver record exists and the sender prepared 600 seconds ago: the chain writer receives
  the call for chain 1338, also when the router is a router contract (fee asset
  \<open>AddressZero\<close>, fee 0 from the scenario's fee helper).
\<close>

theorem cancel_receiver_unguarded_witness:
  "cancel_calls (snd (cancel
      (s1_world\<lparr>getTransactionForChain :=
                   (\<lambda>_ _ _. Inr (Some \<lparr>status = Prepared, txData_expiry = 1700100000\<rparr>)),
                 getNtpTimeSeconds := Inr 1700000000,
                 getTransactionReceipt := (\<lambda>_ _. Inl ''not found''),
                 getBlock := (\<lambda>_ _. Inr (Some \<lparr>timestamp = 1700000000 - 600\<rparr>))\<rparr>)
      s5_invariant (s5_input\<lparr>side := ''receiver''\<rparr>) idle_state)) = [s5_call 1338] \<and>
   cancel_calls (snd (cancel (s1_world\<lparr>isRouterContract := True\<rparr>)
      s5_invariant (s5_input\<lparr>side := ''receiver''\<rparr>) idle_state)) = [s5_call 1338]"
proof -
  let ?input = "s5_input\<lparr>side := ''receiver''\<rparr>"
  let ?contract = "s1_world\<lparr>isRouterContract := True\<rparr>"
  have receiver: "side ?input = ''receiver''"
    by simp
  note plain = cancel_receiver_unguarded [of s1_world s5_invariant ?input idle_state]
  note contract = cancel_receiver_unguarded [of ?contract s5_invariant ?input idle_state]
  have "cancel
      (s1_world\<lparr>getTransactionForChain :=
                   (\<lambda>_ _ _. Inr (Some \<lparr>status = Prepared, txData_expiry = 1700100000\<rparr>)),
                 getNtpTimeSeconds := Inr 1700000000,
                 getTransactionReceipt := (\<lambda>_ _. Inl ''not found''),
                 getBlock := (\<lambda>_ _. Inr (Some \<lparr>timestamp = 1700000000 - 600\<rparr>))\<rparr>)
      s5_invariant ?input idle_state = cancel s1_world s5_invariant ?input idle_state"
    using plain receiver by blast
  moreover
  have "cancel_calls (snd (cancel s1_world s5_invariant ?input idle_state)) = [s5_call 1338]"
    using plain
    by (simp add: s1_world_def s5_input_def s5_invariant_def s5_call_def idle_state_def)
  moreover
  have "cancel_calls (snd (cancel ?contract s5_invariant ?input idle_state)) =
          cancel_calls idle_state @
            [\<lparr>call_chainId = tx_receivingChainId s5_invariant, call_invariant = s5_invariant,
              call_amount = variant_amount ?input, call_expiry = variant_expiry ?input,
              call_preparedBlockNumber = variant_preparedBlockNumber ?input, call_signature = ''0x'',
              call_relayerFeeAsset = AddressZero, call_relayerFee = 0\<rparr>]"
    by (rule contract [THEN conjunct2, THEN conjunct2, THEN conjunct2, rule_format,
                       of s1_chain AddressZero 18 0])
       (simp add: s1_world_def s1_chain_def s5_input_def s5_invariant_def)
  then have "cancel_calls (snd (cancel ?contract s5_invariant ?input idle_state)) = [s5_call 1338]"
    by (simp add: s5_input_def s5_invariant_def s5_call_def idle_state_def)
  ultimately show ?thesis
    by simp
qed

section \<open>The claim about the gas fee\<close>

text \<open>
  C4 (as amended). \<open>gas_fee\<close> returns \<open>0\<close> whenever the chain has no configured price
  oracle, so a fee other than \<open>0\<close> means the chain has one. When an oracle is configured
  it returns \<open>gasPrice * gasEstimate(action) * ethPrice / tokenPrice\<close> under floor division
  (\<open>0\<close> for a token price of \<open>0\<close>), scaled to the given decimals: divided by
  \<open>10 ^ (18 - decimals)\<close> up to 18 decimals, multiplied by \<open>10 ^ (decimals - 18)\<close> above.
  With an oracle the fee can itself be \<open>0\<close>: it is whenever the gas price is \<open>0\<close>, and
  whenever the quotient is less than \<open>10 ^ (18 - decimals)\<close>, one unit of an asset with
  at most 18 decimals.
\<close>

theorem gas_fee_zero:
  "(chainId \<notin> set (CHAINS_WITH_PRICE_ORACLES ow) \<longrightarrow> gas_fee ow chainId assetId decimals action = 0) \<and>
   (gas_fee ow chainId assetId decimals action \<noteq> 0 \<longrightarrow> chainId \<in> set (CHAINS_WITH_PRICE_ORACLES ow)) \<and>
   (chainId \<in> set (CHAINS_WITH_PRICE_ORACLES ow) \<longrightarrow>
      gas_fee ow chainId assetId decimals action =
        (let quotient =
               (if getTokenPrice ow chainId assetId = 0 then 0
                else getGasPrice ow chainId * GAS_ESTIMATES ow action * getTokenPrice ow chainId AddressZero
                       div getTokenPrice ow chainId assetId)
         in if decimals \<le> 18 then quotient div 10 ^ (18 - decimals)
            else quotient * 10 ^ (decimals - 18))) \<and>
   (chainId \<in> set (CHAINS_WITH_PRICE_ORACLES ow) \<and> getGasPrice ow chainId = 0 \<longrightarrow>
      gas_fee ow chainId assetId decimals action = 0) \<and>
   (chainId \<in> set (CHAINS_WITH_PRICE_ORACLES ow) \<and> decimals \<le> 18 \<and>
    getGasPrice ow chainId * GAS_ESTIMATES ow action * getTokenPrice ow chainId AddressZero
      div getTokenPrice ow chainId assetId < 10 ^ (18 - decimals) \<longrightarrow>
      gas_fee ow chainId assetId decimals action = 0)"
  by (auto simp: gas_fee_def scale_to_decimals_def Let_def word_div_less)

text \<open>
  The chain reader's test: on chain 1, with an oracle, the fee for \<open>prepare\<close> at 18
  decimals is \<open>5 gwei * 100000 * 31 / 7\<close>; on chain 1337, without one, it is \<open>0\<close>. The
  same fee at 6 decimals is divided by \<open>10 ^ 12\<close>, and at 20 decimals multiplied by
  \<open>100\<close>.
\<close>

theorem gas_fee_zero_witness:
  "gas_fee test_oracle 1337 ''0x70ce'' 18 ActPrepare = 0 \<and>
   gas_fee test_oracle 1 ''0x70ce'' 18 ActPrepare = 2214285714285714 \<and>
   gas_fee test_oracle 1 ''0x70ce'' 18 ActPrepare =
     5000000000 * 100000 * 31000000000000000000 div 7000000000000000000 \<and>
   gas_fee test_oracle 1 ''0x70ce'' 6 ActPrepare = 2214 \<and>
   gas_fee test_oracle 1 ''0x70ce'' 20 ActPrepare = 221428571428571400"
  using gas_fee_zero [of 1337 test_oracle "''0x70ce''" 18 ActPrepare]
    gas_fee_zero [of 1 test_oracle "''0x70ce''" 18 ActPrepare]
    gas_fee_zero [of 1 test_oracle "''0x70ce''" 6 ActPrepare]
    gas_fee_zero [of 1 test_oracle "''0x70ce''" 20 ActPrepare]
  by (simp add: test_oracle_def AddressZero_def)

text \<open>
  C4 as stated fails in the direction "returns 0 only if there is no oracle": chain 1 has
  an oracle, and the fee is still \<open>0\<close> when the gas price is \<open>0\<close>, or when the fee asset
  has 2 decimals and the fee is worth less than one of its units.
\<close>

theorem gas_fee_zero_with_oracle:
  "1 \<in> set (CHAINS_WITH_PRICE_ORACLES test_oracle) \<and>
   gas_fee (test_oracle\<lparr>getGasPrice := (\<lambda>_. 0)\<rparr>) 1 ''0x70ce'' 18 ActPrepare = 0 \<and>
   gas_fee test_oracle 1 ''0x70ce'' 2 ActPrepare = 0"
  by (simp add: gas_fee_def scale_to_decimals_def test_oracle_def AddressZero_def)

end
